theory Spec2Isabelle
  imports Main
begin

section \<open>Shared schema (shared/schema.ts)\<close>

text \<open>
  \<^verbatim>\<open>STAFF_MEMBERS = ["Ashley", "Peninah", "Joflix", "Locum"]\<close> and
  \<^verbatim>\<open>SHIFT_TYPES = ["Day", "Night", "24h"]\<close> are closed enumerations.
\<close>

datatype StaffMember = Ashley | Peninah | Joflix | Locum

definition STAFF_MEMBERS :: "StaffMember list" where
  "STAFF_MEMBERS = [Ashley, Peninah, Joflix, Locum]"

datatype ShiftType = Day | Night | H24

fun shiftTypeStr :: "ShiftType \<Rightarrow> string" where
  "shiftTypeStr Day = ''Day''"
| "shiftTypeStr Night = ''Night''"
| "shiftTypeStr H24 = ''24h''"

text \<open>
  \<^verbatim>\<open>RosterShift\<close>: the field \<^verbatim>\<open>id\<close> is called \<open>shift_id\<close> here, since \<open>id\<close> is the
  identity function of HOL. \<^verbatim>\<open>hours\<close> is an integer column of the shifts table.
\<close>

record RosterShift =
  shift_id :: string
  date :: string
  weekday :: string
  shiftType :: ShiftType
  shiftLabel :: string
  hours :: int
  assigned :: "StaffMember option"
  allowedStaff :: "StaffMember list"

section \<open>Calendar dates (the part of JavaScript's Date and of date-fns that the generator uses)\<close>

text \<open>
  A valid \<^verbatim>\<open>Date\<close> is read in local time as a calendar day and a time of day. The day is
  numbered from 1970-01-01 (day 0, a Thursday); the time of day is in milliseconds.
  \<^verbatim>\<open>getDay\<close> is 0 for Sunday up to 6 for Saturday.
\<close>

record JsDate =
  epochDay :: int
  msOfDay :: nat

definition getDay :: "JsDate \<Rightarrow> int" where
  "getDay d = (epochDay d + 4) mod 7"

definition addDays :: "JsDate \<Rightarrow> int \<Rightarrow> JsDate" where
  "addDays d n = d\<lparr>epochDay := epochDay d + n\<rparr>"

text \<open>
  date-fns \<^verbatim>\<open>startOfWeek(date, { weekStartsOn })\<close>:
  \<^verbatim>\<open>diff = (day < weekStartsOn ? 7 : 0) + day - weekStartsOn\<close>, then
  \<^verbatim>\<open>setDate(getDate() - diff); setHours(0, 0, 0, 0)\<close>.
\<close>

definition startOfWeek :: "JsDate \<Rightarrow> int \<Rightarrow> JsDate" where
  "startOfWeek d weekStartsOn =
     (let day = getDay d;
          diff = (if day < weekStartsOn then 7 else 0) + day - weekStartsOn
      in \<lparr>epochDay = epochDay d - diff, msOfDay = 0\<rparr>)"

text \<open>The civil date (year, month, day of month) of a day number, proleptic Gregorian.\<close>

definition civilFromDays :: "int \<Rightarrow> int \<times> int \<times> int" where
  "civilFromDays z0 =
     (let z = z0 + 719468;
          era = z div 146097;
          doe = z - era * 146097;
          yoe = (doe - doe div 1460 + doe div 36524 - doe div 146096) div 365;
          y = yoe + era * 400;
          doy = doe - (365 * yoe + yoe div 4 - yoe div 100);
          mp = (5 * doy + 2) div 153;
          dd = doy - (153 * mp + 2) div 5 + 1;
          m = (if mp < 10 then mp + 3 else mp - 9)
      in (if m \<le> 2 then y + 1 else y, m, dd))"

definition daysFromCivil :: "int \<Rightarrow> int \<Rightarrow> int \<Rightarrow> int" where
  "daysFromCivil y0 m dd =
     (let y = (if m \<le> 2 then y0 - 1 else y0);
          era = y div 400;
          yoe = y - era * 400;
          doy = (153 * (if m > 2 then m - 3 else m + 9) + 2) div 5 + dd - 1;
          doe = yoe * 365 + yoe div 4 - yoe div 100 + doy
      in era * 146097 + doe - 719468)"

text \<open>\<^verbatim>\<open>new Date(y, m - 1, d)\<close>: local midnight of a calendar day.\<close>

definition mkDate :: "int \<Rightarrow> int \<Rightarrow> int \<Rightarrow> JsDate" where
  "mkDate y m dd = \<lparr>epochDay = daysFromCivil y m dd, msOfDay = 0\<rparr>"

text \<open>Decimal rendering of a number, \<^verbatim>\<open>String.prototype.padStart\<close>, and date-fns' \<^verbatim>\<open>addLeadingZeros\<close>.\<close>

definition digitChar :: "nat \<Rightarrow> char" where
  "digitChar n = char_of (48 + n)"

fun natToString :: "nat \<Rightarrow> string" where
  "natToString n = (if n < 10 then [digitChar n] else natToString (n div 10) @ [digitChar (n mod 10)])"

declare natToString.simps [simp del]

definition numToString :: "int \<Rightarrow> string" where
  "numToString n = (if n < 0 then ''-'' @ natToString (nat (- n)) else natToString (nat n))"

definition padStart :: "string \<Rightarrow> nat \<Rightarrow> char \<Rightarrow> string" where
  "padStart s targetLength c = replicate (targetLength - length s) c @ s"

definition addLeadingZeros :: "int \<Rightarrow> nat \<Rightarrow> string" where
  "addLeadingZeros n targetLength =
     (if n < 0 then ''-'' else '''') @ padStart (natToString (nat \<bar>n\<bar>)) targetLength (CHR ''0'')"

text \<open>
  \<^verbatim>\<open>format(date, "yyyy-MM-dd")\<close>: the token \<^verbatim>\<open>yyyy\<close> prints the year of the era
  (\<^verbatim>\<open>signedYear > 0 ? signedYear : 1 - signedYear\<close>) on at least four digits.
\<close>

definition format_yyyy_MM_dd :: "JsDate \<Rightarrow> string" where
  "format_yyyy_MM_dd d =
     (case civilFromDays (epochDay d) of (y, m, dd) \<Rightarrow>
        addLeadingZeros (if y > 0 then y else 1 - y) 4 @ ''-'' @
        addLeadingZeros m 2 @ ''-'' @ addLeadingZeros dd 2)"

text \<open>\<^verbatim>\<open>format(date, "EEE")\<close>: the abbreviated English day name.\<close>

definition format_EEE :: "JsDate \<Rightarrow> string" where
  "format_EEE d =
     (let dow = getDay d in
      if dow = 0 then ''Sun'' else if dow = 1 then ''Mon'' else if dow = 2 then ''Tue''
      else if dow = 3 then ''Wed'' else if dow = 4 then ''Thu'' else if dow = 5 then ''Fri''
      else ''Sat'')"

section \<open>Roster generation (client/src/lib/roster-utils.ts)\<close>

definition getAllowedStaff :: "JsDate \<Rightarrow> ShiftType \<Rightarrow> StaffMember list" where
  "getAllowedStaff d st =
     (let dayOfWeek = getDay d in
      if dayOfWeek = 6 \<and> st = Day then [Joflix]
      else if dayOfWeek = 6 \<and> st = Night then [Ashley, Peninah, Locum]
      else if dayOfWeek = 0 then [Ashley, Peninah, Locum]
      else [Ashley, Peninah, Joflix, Locum])"

definition getDefaultAssignment :: "JsDate \<Rightarrow> ShiftType \<Rightarrow> int \<Rightarrow> StaffMember option" where
  "getDefaultAssignment d st weekIndex =
     (let dayOfWeek = getDay d in
      if dayOfWeek = 6 \<and> st = Day then Some Joflix
      else if dayOfWeek = 6 \<and> st = Night then
        (if weekIndex \<ge> 3 then Some Locum
         else if weekIndex mod 2 = 0 then Some Ashley else Some Peninah)
      else if dayOfWeek = 0 \<and> st = Day then
        (if weekIndex mod 2 = 0 then Some Ashley else Some Peninah)
      else if dayOfWeek = 0 \<and> st = Night then
        (if weekIndex mod 2 = 0 then Some Peninah else Some Ashley)
      else if dayOfWeek = 1 then Some Ashley
      else if dayOfWeek = 2 then Some Peninah
      else if dayOfWeek = 3 then Some Joflix
      else if dayOfWeek = 4 then Some Joflix
      else if dayOfWeek = 5 then (if weekIndex \<ge> 3 then Some Locum else Some Peninah)
      else None)"

definition getShiftHours :: "int \<Rightarrow> ShiftType \<Rightarrow> int" where
  "getShiftHours dayOfWeek st =
     (if dayOfWeek \<ge> 1 \<and> dayOfWeek \<le> 5 then 24
      else if st = Day then 12
      else if st = Night then 12
      else 24)"

text \<open>
  The body of the generator's loop for day offset \<open>i\<close>: the shifts it pushes, in order.
  \<^verbatim>\<open>Math.floor(i / 7)\<close> is \<open>i div 7\<close>.
\<close>

definition dayShifts :: "JsDate \<Rightarrow> int \<Rightarrow> RosterShift list" where
  "dayShifts adjustedStart i =
     (let d = addDays adjustedStart i;
          dayOfWeek = getDay d;
          weekIndex = i div 7;
          dateStr = format_yyyy_MM_dd d;
          wd = format_EEE d
      in if dayOfWeek = 6 \<or> dayOfWeek = 0 then
           (let dayHours = getShiftHours dayOfWeek Day;
                dayAllowed = getAllowedStaff d Day;
                dayAssigned = getDefaultAssignment d Day weekIndex;
                nightHours = getShiftHours dayOfWeek Night;
                nightAllowed = getAllowedStaff d Night;
                nightAssigned = getDefaultAssignment d Night weekIndex
            in [\<lparr>shift_id = dateStr @ ''-day'', date = dateStr, weekday = wd,
                  shiftType = Day, shiftLabel = ''Day '' @ numToString dayHours @ ''h'',
                  hours = dayHours, assigned = dayAssigned, allowedStaff = dayAllowed\<rparr>,
                \<lparr>shift_id = dateStr @ ''-night'', date = dateStr, weekday = wd,
                  shiftType = Night, shiftLabel = ''Night '' @ numToString nightHours @ ''h'',
                  hours = nightHours, assigned = nightAssigned, allowedStaff = nightAllowed\<rparr>])
         else
           [\<lparr>shift_id = dateStr @ ''-24h'', date = dateStr, weekday = wd,
              shiftType = H24, shiftLabel = ''24h'',
              hours = getShiftHours dayOfWeek H24,
              assigned = getDefaultAssignment d H24 weekIndex,
              allowedStaff = getAllowedStaff d H24\<rparr>])"

text \<open>The loop \<^verbatim>\<open>for (let i = 0; i < totalDays; i++)\<close>, with the array built so far.\<close>

function genLoop :: "JsDate \<Rightarrow> int \<Rightarrow> int \<Rightarrow> RosterShift list \<Rightarrow> RosterShift list" where
  "genLoop adjustedStart totalDays i shifts =
     (if i < totalDays
      then genLoop adjustedStart totalDays (i + 1) (shifts @ dayShifts adjustedStart i)
      else shifts)"
  by pat_completeness auto
termination
  by (relation "measure (\<lambda>(a, totalDays, i, s). nat (totalDays - i))") auto

declare genLoop.simps [simp del]

definition generateRosterShifts :: "JsDate \<Rightarrow> int \<Rightarrow> RosterShift list" where
  "generateRosterShifts startDate weeks =
     (let totalDays = weeks * 7;
          adjustedStart = startOfWeek startDate 1
      in genLoop adjustedStart totalDays 0 [])"

text \<open>Classification of generated shifts by their (weekday label, shift type) slot.\<close>

definition slotOf :: "RosterShift \<Rightarrow> string \<times> ShiftType" where
  "slotOf s = (weekday s, shiftType s)"

definition weekPattern :: "(string \<times> ShiftType) list" where
  "weekPattern = [(''Mon'', H24), (''Tue'', H24), (''Wed'', H24), (''Thu'', H24), (''Fri'', H24),
     (''Sat'', Day), (''Sat'', Night), (''Sun'', Day), (''Sun'', Night)]"



section \<open>Hours per staff member (calculateStaffHours)\<close>

record StaffHoursSummary =
  name :: StaffMember
  totalHours :: int
  shiftCount :: int

text \<open>
  A failed non-null assertion (\<^verbatim>\<open>hoursMap.get(...)!\<close> on a missing key, or reading a row
  that a query did not return) is a \<^verbatim>\<open>TypeError\<close> at the property access that follows.
  \<open>NotAllowed\<close> is \<^verbatim>\<open>Error(`Staff member ${assigned} is not allowed for this shift`)\<close> and
  \<open>ShiftNotFound\<close> is \<^verbatim>\<open>Error("Shift not found")\<close>.
\<close>

datatype JsError = TypeError | NotAllowed StaffMember | ShiftNotFound

type_synonym HoursMap = "StaffMember \<rightharpoonup> int \<times> int"

text \<open>\<^verbatim>\<open>STAFF_MEMBERS.forEach(staff => hoursMap.set(staff, { hours: 0, count: 0 }))\<close>\<close>

definition initHoursMap :: HoursMap where
  "initHoursMap = fold (\<lambda>staff m. m(staff \<mapsto> (0, 0))) STAFF_MEMBERS Map.empty"

text \<open>The body of \<^verbatim>\<open>shifts.forEach\<close>: \<^verbatim>\<open>shift.assigned\<close> is truthy exactly when it is not null.\<close>

definition addShiftHours :: "RosterShift \<Rightarrow> HoursMap \<Rightarrow> JsError + HoursMap" where
  "addShiftHours shift hoursMap =
     (case assigned shift of
        None \<Rightarrow> Inr hoursMap
      | Some a \<Rightarrow>
          (case hoursMap a of
             None \<Rightarrow> Inl TypeError
           | Some current \<Rightarrow>
               Inr (hoursMap(a \<mapsto> (fst current + hours shift, snd current + 1)))))"

fun sumShiftHours :: "RosterShift list \<Rightarrow> HoursMap \<Rightarrow> JsError + HoursMap" where
  "sumShiftHours [] hoursMap = Inr hoursMap"
| "sumShiftHours (shift # rest) hoursMap =
     (case addShiftHours shift hoursMap of
        Inl e \<Rightarrow> Inl e
      | Inr hoursMap' \<Rightarrow> sumShiftHours rest hoursMap')"

fun summaries :: "HoursMap \<Rightarrow> StaffMember list \<Rightarrow> JsError + StaffHoursSummary list" where
  "summaries hoursMap [] = Inr []"
| "summaries hoursMap (n # ns) =
     (case hoursMap n of
        None \<Rightarrow> Inl TypeError
      | Some c \<Rightarrow>
          (case summaries hoursMap ns of
             Inl e \<Rightarrow> Inl e
           | Inr rest \<Rightarrow> Inr (\<lparr>name = n, totalHours = fst c, shiftCount = snd c\<rparr> # rest)))"

definition calculateStaffHours :: "RosterShift list \<Rightarrow> JsError + StaffHoursSummary list" where
  "calculateStaffHours shiftList =
     (case sumShiftHours shiftList initHoursMap of
        Inl e \<Rightarrow> Inl e
      | Inr hoursMap \<Rightarrow> summaries hoursMap STAFF_MEMBERS)"

section \<open>Rosters and the in-memory storage (MemStorage)\<close>

record Roster =
  roster_id :: string
  roster_name :: string
  startDate :: string
  endDate :: string
  weeks :: int
  shifts :: "RosterShift list"
  createdAt :: "string option"
  updatedAt :: "string option"
  isActive :: "bool option"
  version :: "int option"

record MemStorage =
  roster :: "Roster option"

text \<open>\<^verbatim>\<open>Array.prototype.findIndex\<close>; \<open>None\<close> stands for the result -1.\<close>

fun findIndex :: "('a \<Rightarrow> bool) \<Rightarrow> 'a list \<Rightarrow> nat option" where
  "findIndex P [] = None"
| "findIndex P (x # xs) =
     (if P x then Some 0 else (case findIndex P xs of None \<Rightarrow> None | Some i \<Rightarrow> Some (Suc i)))"

text \<open>
  \<^verbatim>\<open>MemStorage.updateShift\<close>: the result (a thrown error, or the returned value, \<open>None\<close> for
  \<^verbatim>\<open>null\<close>) and the storage afterwards. The index comes from \<open>findIndex\<close>, so it is in range.
\<close>

definition MemStorage_updateShift ::
  "MemStorage \<Rightarrow> string \<Rightarrow> StaffMember option \<Rightarrow> (JsError + RosterShift option) \<times> MemStorage" where
  "MemStorage_updateShift this shiftId newAssigned =
     (case roster this of
        None \<Rightarrow> (Inr None, this)
      | Some r \<Rightarrow>
          (case findIndex (\<lambda>s. shift_id s = shiftId) (shifts r) of
             None \<Rightarrow> (Inr None, this)
           | Some shiftIndex \<Rightarrow>
               (let shift = shifts r ! shiftIndex in
                if newAssigned \<noteq> None \<and> the newAssigned \<notin> set (allowedStaff shift)
                then (Inl (NotAllowed (the newAssigned)), this)
                else
                  (let updatedShift = shift\<lparr>assigned := newAssigned\<rparr> in
                   (Inr (Some updatedShift),
                    this\<lparr>roster := Some (r\<lparr>shifts := (shifts r)[shiftIndex := updatedShift]\<rparr>)\<rparr>)))))"

text \<open>The stored shift with a given id, as \<^verbatim>\<open>updateShift\<close> finds it.\<close>

definition memShift :: "MemStorage \<Rightarrow> string \<Rightarrow> RosterShift option" where
  "memShift this shiftId =
     (case roster this of
        None \<Rightarrow> None
      | Some r \<Rightarrow> find (\<lambda>s. shift_id s = shiftId) (shifts r))"

section \<open>The database storage (DatabaseStorage)\<close>

text \<open>
  The tables of shared/schema.ts as lists of rows. A row of the shifts table has the fields of
  a \<open>RosterShift\<close> and the owning roster's id; timestamps are numbers. A query
  \<^verbatim>\<open>select().from(t).where(eq(t.id, x)).limit(1)\<close> is \<open>find\<close>; an
  \<^verbatim>\<open>update(t).set(...).where(eq(t.id, x))\<close> changes every row that matches.
\<close>

record DbShift = RosterShift +
  rosterId :: string

record DbRoster =
  r_id :: string
  r_name :: string
  r_startDate :: string
  r_endDate :: string
  r_weeks :: int
  r_createdAt :: int
  r_updatedAt :: int
  r_isActive :: bool
  r_version :: int

datatype SwapStatus = Pending | Approved | Rejected

record DbSwapRequest =
  sw_id :: string
  sw_shiftId :: string
  sw_fromStaff :: StaffMember
  sw_toStaff :: StaffMember
  sw_status :: SwapStatus
  sw_reason :: "string option"
  sw_createdAt :: int
  sw_respondedAt :: "int option"

record SwapRequestWithDetails =
  det_id :: string
  det_shiftId :: string
  det_shiftDate :: string
  det_shiftType :: string
  det_fromStaff :: StaffMember
  det_toStaff :: StaffMember
  det_status :: SwapStatus
  det_reason :: "string option"
  det_createdAt :: int
  det_respondedAt :: "int option"

record Db =
  rostersTable :: "DbRoster list"
  shiftsTable :: "DbShift list"
  swapRequestsTable :: "DbSwapRequest list"

definition dbShiftToRosterShift :: "DbShift \<Rightarrow> RosterShift" where
  "dbShiftToRosterShift dbShift =
     \<lparr>shift_id = shift_id dbShift, date = date dbShift, weekday = weekday dbShift,
      shiftType = shiftType dbShift, shiftLabel = shiftLabel dbShift, hours = hours dbShift,
      assigned = assigned dbShift, allowedStaff = allowedStaff dbShift\<rparr>"

definition selectShift :: "Db \<Rightarrow> string \<Rightarrow> DbShift option" where
  "selectShift db shiftId = find (\<lambda>s. shift_id s = shiftId) (shiftsTable db)"

definition setShiftAssigned :: "Db \<Rightarrow> string \<Rightarrow> StaffMember option \<Rightarrow> Db" where
  "setShiftAssigned db shiftId a =
     db\<lparr>shiftsTable :=
          map (\<lambda>s. if shift_id s = shiftId then s\<lparr>assigned := a\<rparr> else s) (shiftsTable db)\<rparr>"

definition touchRoster :: "Db \<Rightarrow> string \<Rightarrow> int \<Rightarrow> Db" where
  "touchRoster db rid now =
     db\<lparr>rostersTable :=
          map (\<lambda>r. if r_id r = rid then r\<lparr>r_updatedAt := now\<rparr> else r) (rostersTable db)\<rparr>"

text \<open>\<^verbatim>\<open>DatabaseStorage.updateShift\<close>; \<open>now\<close> is the value of \<^verbatim>\<open>new Date()\<close>.\<close>

definition DatabaseStorage_updateShift ::
  "Db \<Rightarrow> int \<Rightarrow> string \<Rightarrow> StaffMember option \<Rightarrow> (JsError + RosterShift option) \<times> Db" where
  "DatabaseStorage_updateShift db now shiftId newAssigned =
     (case selectShift db shiftId of
        None \<Rightarrow> (Inr None, db)
      | Some shift \<Rightarrow>
          if newAssigned \<noteq> None \<and> the newAssigned \<notin> set (allowedStaff shift)
          then (Inl (NotAllowed (the newAssigned)), db)
          else
            (let db1 = setShiftAssigned db shiftId newAssigned;
                 db2 = touchRoster db1 (rosterId shift) now
             in case selectShift db2 shiftId of
                  None \<Rightarrow> (Inl TypeError, db2)
                | Some updatedShift \<Rightarrow> (Inr (Some (dbShiftToRosterShift updatedShift)), db2)))"

text \<open>
  \<^verbatim>\<open>DatabaseStorage.createSwapRequest\<close>; \<open>requestId\<close> is the value of \<^verbatim>\<open>randomUUID()\<close>,
  and \<^verbatim>\<open>reason || null\<close> turns a missing or empty reason into null.
\<close>

definition createSwapRequest ::
  "Db \<Rightarrow> int \<Rightarrow> string \<Rightarrow> string \<Rightarrow> StaffMember \<Rightarrow> StaffMember \<Rightarrow> string option
     \<Rightarrow> (JsError + SwapRequestWithDetails) \<times> Db" where
  "createSwapRequest db now requestId shiftId fromStaff toStaff reason =
     (case selectShift db shiftId of
        None \<Rightarrow> (Inl ShiftNotFound, db)
      | Some shift \<Rightarrow>
          (let reasonOrNull = (case reason of None \<Rightarrow> None
                                | Some txt \<Rightarrow> if txt = [] then None else Some txt)
           in (Inr \<lparr>det_id = requestId, det_shiftId = shiftId, det_shiftDate = date shift,
                    det_shiftType = shiftTypeStr (shiftType shift), det_fromStaff = fromStaff,
                    det_toStaff = toStaff, det_status = Pending, det_reason = reasonOrNull,
                    det_createdAt = now, det_respondedAt = None\<rparr>,
               db\<lparr>swapRequestsTable := swapRequestsTable db @
                    [\<lparr>sw_id = requestId, sw_shiftId = shiftId, sw_fromStaff = fromStaff,
                      sw_toStaff = toStaff, sw_status = Pending, sw_reason = reasonOrNull,
                      sw_createdAt = now, sw_respondedAt = None\<rparr>]\<rparr>)))"

text \<open>
  \<^verbatim>\<open>DatabaseStorage.respondToSwapRequest\<close>: the status argument is "approved" or "rejected".
  On approval the shift row is written directly with \<^verbatim>\<open>request.toStaff\<close>.
\<close>

definition respondToSwapRequest ::
  "Db \<Rightarrow> int \<Rightarrow> string \<Rightarrow> SwapStatus \<Rightarrow> (JsError + SwapRequestWithDetails option) \<times> Db" where
  "respondToSwapRequest db now requestId status =
     (case find (\<lambda>q. sw_id q = requestId) (swapRequestsTable db) of
        None \<Rightarrow> (Inr None, db)
      | Some request \<Rightarrow>
          (let db1 = db\<lparr>swapRequestsTable :=
                 map (\<lambda>q. if sw_id q = requestId
                           then q\<lparr>sw_status := status, sw_respondedAt := Some now\<rparr> else q)
                     (swapRequestsTable db)\<rparr>;
               db2 = (if status = Approved
                      then setShiftAssigned db1 (sw_shiftId request) (Some (sw_toStaff request))
                      else db1);
               shift = selectShift db2 (sw_shiftId request)
           in (Inr (Some
                 \<lparr>det_id = sw_id request, det_shiftId = sw_shiftId request,
                  det_shiftDate = (case shift of None \<Rightarrow> [] | Some s \<Rightarrow> date s),
                  det_shiftType = (case shift of None \<Rightarrow> [] | Some s \<Rightarrow> shiftTypeStr (shiftType s)),
                  det_fromStaff = sw_fromStaff request, det_toStaff = sw_toStaff request,
                  det_status = status, det_reason = sw_reason request,
                  det_createdAt = sw_createdAt request, det_respondedAt = Some now\<rparr>),
               db2)))"

text \<open>The invariant of a shift row: a non-null assignee is one of the allowed staff.\<close>

definition assigneeEligible :: "DbShift \<Rightarrow> bool" where
  "assigneeEligible s = (case assigned s of None \<Rightarrow> True | Some a \<Rightarrow> a \<in> set (allowedStaff s))"

section \<open>Roster comparison (client/src/components/roster-comparison.tsx)\<close>

record ShiftDiff =
  diff_shiftId :: string
  diff_date :: string
  diff_weekday :: string
  diff_shiftType :: string
  leftAssigned :: "StaffMember option"
  rightAssigned :: "StaffMember option"
  isDifferent :: bool

text \<open>
  A JavaScript \<^verbatim>\<open>Map\<close> keeps its keys in the order of their first insertion, and \<^verbatim>\<open>set\<close>
  on a key already there replaces the value in place. A \<^verbatim>\<open>Set\<close> keeps the first occurrence
  of each element.
\<close>

fun mapSet :: "'k \<Rightarrow> 'v \<Rightarrow> ('k \<times> 'v) list \<Rightarrow> ('k \<times> 'v) list" where
  "mapSet k v [] = [(k, v)]"
| "mapSet k v ((k', v') # m) = (if k' = k then (k, v) # m else (k', v') # mapSet k v m)"

definition mapGet :: "('k \<times> 'v) list \<Rightarrow> 'k \<Rightarrow> 'v option" where
  "mapGet m k = map_of m k"

definition mapKeys :: "('k \<times> 'v) list \<Rightarrow> 'k list" where
  "mapKeys m = map fst m"

definition newSet :: "'k list \<Rightarrow> 'k list" where
  "newSet xs = fold (\<lambda>x acc. if x \<in> set acc then acc else acc @ [x]) xs []"

text \<open>\<^verbatim>\<open>`${shift.date}-${shift.shiftType}`\<close>\<close>

definition shiftKey :: "RosterShift \<Rightarrow> string" where
  "shiftKey shift = date shift @ ''-'' @ shiftTypeStr (shiftType shift)"

definition shiftsMap :: "RosterShift list \<Rightarrow> (string \<times> RosterShift) list" where
  "shiftsMap shiftList = fold (\<lambda>shift m. mapSet (shiftKey shift) shift m) shiftList []"

text \<open>The body of \<^verbatim>\<open>allKeys.forEach\<close>: the entries it pushes for one key.\<close>

definition diffEntry ::
  "(string \<times> RosterShift) list \<Rightarrow> (string \<times> RosterShift) list \<Rightarrow> string \<Rightarrow> ShiftDiff list" where
  "diffEntry leftShiftsMap rightShiftsMap key =
     (let leftShift = mapGet leftShiftsMap key;
          rightShift = mapGet rightShiftsMap key;
          leftA = (case leftShift of None \<Rightarrow> None | Some s \<Rightarrow> assigned s);
          rightA = (case rightShift of None \<Rightarrow> None | Some s \<Rightarrow> assigned s);
          different = (leftA \<noteq> rightA);
          shift = (case leftShift of Some s \<Rightarrow> Some s | None \<Rightarrow> rightShift)
      in case shift of
           None \<Rightarrow> []
         | Some s \<Rightarrow>
             [\<lparr>diff_shiftId = shift_id s, diff_date = date s, diff_weekday = weekday s,
               diff_shiftType = shiftTypeStr (shiftType s), leftAssigned = leftA,
               rightAssigned = rightA, isDifferent = different\<rparr>])"

text \<open>
  \<^verbatim>\<open>results.sort((a, b) => a.date.localeCompare(b.date) || a.shiftType.localeCompare(b.shiftType))\<close>.
  \<^verbatim>\<open>String.prototype.localeCompare\<close> depends on the host's locale and is a parameter; the
  sort is stable, here by insertion.
\<close>

definition diffCompare :: "(string \<Rightarrow> string \<Rightarrow> int) \<Rightarrow> ShiftDiff \<Rightarrow> ShiftDiff \<Rightarrow> int" where
  "diffCompare localeCompare a b =
     (let c = localeCompare (diff_date a) (diff_date b) in
      if c \<noteq> 0 then c else localeCompare (diff_shiftType a) (diff_shiftType b))"

fun insertSorted :: "('a \<Rightarrow> 'a \<Rightarrow> int) \<Rightarrow> 'a \<Rightarrow> 'a list \<Rightarrow> 'a list" where
  "insertSorted cmp x [] = [x]"
| "insertSorted cmp x (y # ys) = (if cmp x y \<le> 0 then x # y # ys else y # insertSorted cmp x ys)"

definition sortBy :: "('a \<Rightarrow> 'a \<Rightarrow> int) \<Rightarrow> 'a list \<Rightarrow> 'a list" where
  "sortBy cmp xs = foldr (insertSorted cmp) xs []"

definition diffs ::
  "(string \<Rightarrow> string \<Rightarrow> int) \<Rightarrow> Roster option \<Rightarrow> Roster option \<Rightarrow> ShiftDiff list" where
  "diffs localeCompare leftRoster rightRoster =
     (case (leftRoster, rightRoster) of
        (Some l, Some r) \<Rightarrow>
          (let leftShiftsMap = shiftsMap (shifts l);
               rightShiftsMap = shiftsMap (shifts r);
               allKeys = newSet (mapKeys leftShiftsMap @ mapKeys rightShiftsMap);
               results = concat (map (diffEntry leftShiftsMap rightShiftsMap) allKeys)
           in sortBy (diffCompare localeCompare) results)
      | _ \<Rightarrow> [])"

text \<open>\<^verbatim>\<open>changedCount = diffs.filter((d) => d.isDifferent).length\<close>\<close>

definition changedCount :: "ShiftDiff list \<Rightarrow> nat" where
  "changedCount ds = length (filter isDifferent ds)"

text \<open>A comparator to run the comparison with: the order of the character codes.\<close>

fun codeCompare :: "string \<Rightarrow> string \<Rightarrow> int" where
  "codeCompare [] [] = 0"
| "codeCompare [] (y # ys) = -1"
| "codeCompare (x # xs) [] = 1"
| "codeCompare (x # xs) (y # ys) =
     (if of_char x < (of_char y :: nat) then -1
      else if of_char x > (of_char y :: nat) then 1
      else codeCompare xs ys)"

section \<open>Sample data: a one-week roster from Monday 2024-06-03\<close>

text \<open>The roster of one week from Monday 2024-06-03.\<close>

definition june3 :: JsDate where
  "june3 = mkDate 2024 6 3"

definition juneRoster :: "RosterShift list" where
  "juneRoster =
    [\<lparr>shift_id = ''2024-06-03-24h'', date = ''2024-06-03'', weekday = ''Mon'',
       shiftType = H24, shiftLabel = ''24h'', hours = 24,
       assigned = Some Ashley, allowedStaff = [Ashley, Peninah, Joflix, Locum]\<rparr>,
     \<lparr>shift_id = ''2024-06-04-24h'', date = ''2024-06-04'', weekday = ''Tue'',
       shiftType = H24, shiftLabel = ''24h'', hours = 24,
       assigned = Some Peninah, allowedStaff = [Ashley, Peninah, Joflix, Locum]\<rparr>,
     \<lparr>shift_id = ''2024-06-05-24h'', date = ''2024-06-05'', weekday = ''Wed'',
       shiftType = H24, shiftLabel = ''24h'', hours = 24,
       assigned = Some Joflix, allowedStaff = [Ashley, Peninah, Joflix, Locum]\<rparr>,
     \<lparr>shift_id = ''2024-06-06-24h'', date = ''2024-06-06'', weekday = ''Thu'',
       shiftType = H24, shiftLabel = ''24h'', hours = 24,
       assigned = Some Joflix, allowedStaff = [Ashley, Peninah, Joflix, Locum]\<rparr>,
     \<lparr>shift_id = ''2024-06-07-24h'', date = ''2024-06-07'', weekday = ''Fri'',
       shiftType = H24, shiftLabel = ''24h'', hours = 24,
       assigned = Some Peninah, allowedStaff = [Ashley, Peninah, Joflix, Locum]\<rparr>,
     \<lparr>shift_id = ''2024-06-08-day'', date = ''2024-06-08'', weekday = ''Sat'',
       shiftType = Day, shiftLabel = ''Day 12h'', hours = 12,
       assigned = Some Joflix, allowedStaff = [Joflix]\<rparr>,
     \<lparr>shift_id = ''2024-06-08-night'', date = ''2024-06-08'', weekday = ''Sat'',
       shiftType = Night, shiftLabel = ''Night 12h'', hours = 12,
       assigned = Some Ashley, allowedStaff = [Ashley, Peninah, Locum]\<rparr>,
     \<lparr>shift_id = ''2024-06-09-day'', date = ''2024-06-09'', weekday = ''Sun'',
       shiftType = Day, shiftLabel = ''Day 12h'', hours = 12,
       assigned = Some Ashley, allowedStaff = [Ashley, Peninah, Locum]\<rparr>,
     \<lparr>shift_id = ''2024-06-09-night'', date = ''2024-06-09'', weekday = ''Sun'',
       shiftType = Night, shiftLabel = ''Night 12h'', hours = 12,
       assigned = Some Peninah, allowedStaff = [Ashley, Peninah, Locum]\<rparr>]"

text \<open>Wednesday 2024-06-05, at noon.\<close>

definition june5_noon :: JsDate where
  "june5_noon = \<lparr>epochDay = daysFromCivil 2024 6 5, msOfDay = 43200000\<rparr>"

text \<open>A one-week roster record and its storages, to run the operations on.\<close>

definition juneRosterRec :: Roster where
  "juneRosterRec =
     \<lparr>roster_id = ''r1'', roster_name = ''Roster Jun 3 - Jun 9, 2024'',
      startDate = ''2024-06-03'', endDate = ''2024-06-09'', weeks = 1, shifts = juneRoster,
      createdAt = None, updatedAt = None, isActive = Some True, version = Some 1\<rparr>"

text \<open>The storages that hold the one-week roster, as \<^verbatim>\<open>saveRoster\<close> writes its rows.\<close>

definition toDbShift :: "string \<Rightarrow> RosterShift \<Rightarrow> DbShift" where
  "toDbShift rid shift =
     \<lparr>shift_id = shift_id shift, date = date shift, weekday = weekday shift,
      shiftType = shiftType shift, shiftLabel = shiftLabel shift, hours = hours shift,
      assigned = assigned shift, allowedStaff = allowedStaff shift, rosterId = rid\<rparr>"

definition memJune :: MemStorage where
  "memJune = \<lparr>roster = Some juneRosterRec\<rparr>"

definition dbJune :: Db where
  "dbJune =
     \<lparr>rostersTable =
        [\<lparr>r_id = ''r1'', r_name = ''Roster Jun 3 - Jun 9, 2024'', r_startDate = ''2024-06-03'',
          r_endDate = ''2024-06-09'', r_weeks = 1, r_createdAt = 0, r_updatedAt = 0,
          r_isActive = True, r_version = 1\<rparr>],
      shiftsTable = map (toDbShift ''r1'') juneRoster,
      swapRequestsTable = []\<rparr>"

definition satDay :: RosterShift where
  "satDay = \<lparr>shift_id = ''2024-06-08-day'', date = ''2024-06-08'', weekday = ''Sat'',
       shiftType = Day, shiftLabel = ''Day 12h'', hours = 12,
       assigned = Some Joflix, allowedStaff = [Joflix]\<rparr>"

definition satNight :: RosterShift where
  "satNight = \<lparr>shift_id = ''2024-06-08-night'', date = ''2024-06-08'', weekday = ''Sat'',
       shiftType = Night, shiftLabel = ''Night 12h'', hours = 12,
       assigned = Some Ashley, allowedStaff = [Ashley, Peninah, Locum]\<rparr>"

text \<open>A swap request on the Saturday Day shift towards Ashley, created and then approved.\<close>

definition dbSwapPending :: Db where
  "dbSwapPending =
     snd (createSwapRequest dbJune 100 ''q1'' ''2024-06-08-day'' Joflix Ashley None)"

definition dbSwapApproved :: Db where
  "dbSwapApproved = snd (respondToSwapRequest dbSwapPending 200 ''q1'' Approved)"

section \<open>The generator as a concatenation of days\<close>

lemma genLoop_eq:
  "genLoop a n i acc = acc @ concat (map (dayShifts a) [i..n - 1])"
proof (induction a n i acc rule: genLoop.induct)
  case (1 a n i acc)
  show ?case
  proof (cases "i < n")
    case True
    then have "[i..n - 1] = i # [i + 1..n - 1]" by (simp add: upto_rec1)
    with True 1 show ?thesis by (subst genLoop.simps) simp
  next
    case False
    then show ?thesis by (subst genLoop.simps) simp
  qed
qed

lemma generate_eq:
  "generateRosterShifts sd w = concat (map (dayShifts (startOfWeek sd 1)) [0..7 * w - 1])"
  by (simp add: generateRosterShifts_def genLoop_eq mult.commute)

lemma getDay_range: "0 \<le> getDay d \<and> getDay d < 7"
  by (simp add: getDay_def)

lemma getDay_addDays: "getDay (addDays a i) = (getDay a + i) mod 7"
  by (simp add: getDay_def addDays_def mod_simps algebra_simps)

lemma getDay_startOfWeek: "getDay (startOfWeek d 1) = 1"
proof -
  let ?e = "epochDay d"
  have "(?e - ((if (?e + 4) mod 7 < 1 then 7 else 0) + (?e + 4) mod 7 - 1) + 4) mod 7 = 1"
    by presburger
  then show ?thesis by (simp add: getDay_def startOfWeek_def Let_def)
qed

lemma upto_week: "[i..i + 6] = [i, i + 1, i + 2, i + 3, i + 4, i + 5, i + 6]"
  by (simp add: upto_rec1)

lemma slots_dayShifts:
  "map slotOf (dayShifts a i) =
     (let dow = getDay (addDays a i) in
      if dow = 6 then [(''Sat'', Day), (''Sat'', Night)]
      else if dow = 0 then [(''Sun'', Day), (''Sun'', Night)]
      else [(format_EEE (addDays a i), H24)])"
  by (simp add: dayShifts_def Let_def slotOf_def format_EEE_def)

lemma dow_in_week:
  assumes "getDay a = 1"
  shows "getDay (addDays a (7 * k)) = 1" "getDay (addDays a (7 * k + 1)) = 2"
    "getDay (addDays a (7 * k + 2)) = 3" "getDay (addDays a (7 * k + 3)) = 4"
    "getDay (addDays a (7 * k + 4)) = 5" "getDay (addDays a (7 * k + 5)) = 6"
    "getDay (addDays a (7 * k + 6)) = 0"
  using assms by (simp_all add: getDay_addDays)

lemma week_slots:
  assumes "getDay a = 1"
  shows "map slotOf (concat (map (dayShifts a) [7 * k..7 * k + 6])) = weekPattern"
  by (simp add: upto_week map_concat slots_dayShifts dow_in_week[OF assms] format_EEE_def
      weekPattern_def Let_def)

lemma weeks_slots:
  assumes "getDay a = 1"
  shows "map slotOf (concat (map (dayShifts a) [0..7 * int n - 1])) =
         concat (replicate n weekPattern)"
proof (induction n)
  case 0
  then show ?case by simp
next
  case (Suc n)
  have "[0..7 * int (Suc n) - 1] = [0..7 * int n - 1] @ [7 * int n..7 * int n + 6]"
    using upto_split1[of 0 "7 * int n" "7 * int n + 6"] by (simp add: algebra_simps)
  moreover have "replicate (Suc n) weekPattern = replicate n weekPattern @ [weekPattern]"
    by (simp add: replicate_append_same)
  ultimately show ?case
    using Suc week_slots[OF assms, of "int n"]
    by (simp del: replicate_Suc)
qed

lemma generate_slots:
  assumes "0 \<le> w"
  shows "map slotOf (generateRosterShifts sd w) = concat (replicate (nat w) weekPattern)"
  using weeks_slots[OF getDay_startOfWeek, of sd "nat w"] assms
  by (simp add: generate_eq)

lemma length_filter_concat_replicate:
  "length (filter Q (concat (replicate n xs))) = n * length (filter Q xs)"
  by (induction n) simp_all

lemma length_filter_slots:
  assumes "map slotOf r = concat (replicate n weekPattern)"
  shows "length (filter (\<lambda>s. Q (slotOf s)) r) = n * length (filter Q weekPattern)"
proof -
  have "length (filter (\<lambda>s. Q (slotOf s)) r) = length (filter Q (map slotOf r))"
    by (simp add: filter_map comp_def)
  then show ?thesis by (simp add: assms length_filter_concat_replicate)
qed

lemma generate_length:
  assumes "0 \<le> w"
  shows "int (length (generateRosterShifts sd w)) = w * 9"
proof -
  have "length (generateRosterShifts sd w) =
        length (filter (\<lambda>s. (\<lambda>x. True) (slotOf s)) (generateRosterShifts sd w))"
    by simp
  also have "\<dots> = nat w * length (filter (\<lambda>x. True) weekPattern)"
    by (rule length_filter_slots[OF generate_slots[OF assms]])
  finally show ?thesis using assms by (simp add: weekPattern_def)
qed

lemma june_roster: "generateRosterShifts june3 1 = juneRoster"
  unfolding june3_def juneRoster_def by code_simp

section \<open>Properties of the generated roster\<close>

lemma format_EEE_Sat: "format_EEE d = ''Sat'' \<longleftrightarrow> getDay d = 6"
  using getDay_range[of d] by (simp add: format_EEE_def Let_def)

lemma dayShifts_saturday_day:
  assumes "s \<in> set (dayShifts a i)" "weekday s = ''Sat''" "shiftType s = Day"
  shows "allowedStaff s = [Joflix] \<and> assigned s = Some Joflix"
  using assms
  by (auto simp: dayShifts_def Let_def format_EEE_Sat getAllowedStaff_def getDefaultAssignment_def
      split: if_splits)

lemma dayShifts_assigned:
  assumes "s \<in> set (dayShifts a i)"
  shows "assigned s \<noteq> None"
proof -
  have r: "0 \<le> getDay (addDays a i) \<and> getDay (addDays a i) < 7" by (rule getDay_range)
  show ?thesis
    using assms r
    by (auto simp: dayShifts_def Let_def getDefaultAssignment_def split: if_splits)
qed

lemma startOfWeek_in_week:
  assumes "getDay m = 1" "epochDay m \<le> epochDay d" "epochDay d < epochDay m + 7"
  shows "startOfWeek d 1 = \<lparr>epochDay = epochDay m, msOfDay = 0\<rparr>"
proof -
  have "epochDay d - ((if (epochDay d + 4) mod 7 < 1 then 7 else 0) + (epochDay d + 4) mod 7 - 1)
        = epochDay m"
    using assms unfolding getDay_def by presburger
  then show ?thesis by (simp add: startOfWeek_def getDay_def Let_def)
qed

lemma june3_day: "epochDay june3 = 19877"
  by (simp add: june3_def mkDate_def daysFromCivil_def)

lemma june3_monday: "getDay june3 = 1"
  by (simp add: getDay_def june3_day)

lemma june5_day: "epochDay june5_noon = 19879"
  by (simp add: june5_noon_def daysFromCivil_def)



text \<open>
  C3. Generating one week from 2024-06-03 (a Monday) gives exactly nine shifts, in this order:
  Monday 24h for Ashley, Tuesday 24h for Peninah, Wednesday 24h for Joflix, Thursday 24h for
  Joflix, Friday 24h for Peninah, Saturday Day 12h for Joflix, Saturday Night 12h for Ashley,
  Sunday Day 12h for Ashley, Sunday Night 12h for Peninah.
\<close>

theorem generate_june_2024_scenario:
  "length (generateRosterShifts (mkDate 2024 6 3) 1) = 9
   \<and> map (\<lambda>s. (date s, weekday s, shiftType s, shiftLabel s, hours s, assigned s))
       (generateRosterShifts (mkDate 2024 6 3) 1) =
     [(''2024-06-03'', ''Mon'', H24, ''24h'', 24, Some Ashley),
      (''2024-06-04'', ''Tue'', H24, ''24h'', 24, Some Peninah),
      (''2024-06-05'', ''Wed'', H24, ''24h'', 24, Some Joflix),
      (''2024-06-06'', ''Thu'', H24, ''24h'', 24, Some Joflix),
      (''2024-06-07'', ''Fri'', H24, ''24h'', 24, Some Peninah),
      (''2024-06-08'', ''Sat'', Day, ''Day 12h'', 12, Some Joflix),
      (''2024-06-08'', ''Sat'', Night, ''Night 12h'', 12, Some Ashley),
      (''2024-06-09'', ''Sun'', Day, ''Day 12h'', 12, Some Ashley),
      (''2024-06-09'', ''Sun'', Night, ''Night 12h'', 12, Some Peninah)]"
  using june_roster by (simp add: june3_def juneRoster_def)

text \<open>
  C5. Every generated Saturday Day shift has the allowed staff list [Joflix] and Joflix as its
  default assignee, for every start date and number of weeks.
\<close>

theorem saturday_day_locked:
  "\<forall>s \<in> set (generateRosterShifts sd w).
     weekday s = ''Sat'' \<and> shiftType s = Day \<longrightarrow>
       allowedStaff s = [Joflix] \<and> assigned s = Some Joflix"
  by (auto simp: generate_eq dest: dayShifts_saturday_day)

theorem saturday_day_locked_witness:
  "juneRoster ! 5 \<in> set (generateRosterShifts june3 1)
   \<and> weekday (juneRoster ! 5) = ''Sat'' \<and> shiftType (juneRoster ! 5) = Day
   \<and> allowedStaff (juneRoster ! 5) = [Joflix] \<and> assigned (juneRoster ! 5) = Some Joflix"
proof -
  have mem: "juneRoster ! 5 \<in> set (generateRosterShifts june3 1)"
    by (simp add: june_roster juneRoster_def)
  have sat: "weekday (juneRoster ! 5) = ''Sat'' \<and> shiftType (juneRoster ! 5) = Day"
    by (simp add: juneRoster_def)
  from saturday_day_locked[of june3 1] mem sat
  have "allowedStaff (juneRoster ! 5) = [Joflix] \<and> assigned (juneRoster ! 5) = Some Joflix"
    by blast
  with mem sat show ?thesis by simp
qed

text \<open>
  C8. The generator snaps the start date to the Monday of its week: for a Monday m and any
  date d among the seven days from m on (at any time of day), generating from d gives the same
  roster as generating from m, and for a positive number of weeks the first shift is on that
  Monday.
\<close>

theorem generate_snaps_to_monday:
  assumes "getDay m = 1" "epochDay m \<le> epochDay d" "epochDay d < epochDay m + 7"
  shows "generateRosterShifts d w = generateRosterShifts m w
     \<and> (0 < w \<longrightarrow> (\<exists>s rest. generateRosterShifts d w = s # rest
            \<and> weekday s = ''Mon'' \<and> date s = format_yyyy_MM_dd m))"
proof -
  let ?a = "\<lparr>epochDay = epochDay m, msOfDay = 0\<rparr>"
  have sd: "startOfWeek d 1 = ?a" by (rule startOfWeek_in_week[OF assms])
  have sm: "startOfWeek m 1 = ?a" using assms(1) by (intro startOfWeek_in_week) simp_all
  have eq: "generateRosterShifts d w = generateRosterShifts m w"
    by (simp add: generate_eq sd sm)
  have ga: "getDay ?a = 1" using assms(1) by (simp add: getDay_def)
  have fa: "format_yyyy_MM_dd (addDays ?a 0) = format_yyyy_MM_dd m"
    by (simp add: format_yyyy_MM_dd_def addDays_def)
  have first: "dayShifts ?a 0 =
     [\<lparr>shift_id = format_yyyy_MM_dd m @ ''-24h'', date = format_yyyy_MM_dd m,
       weekday = ''Mon'', shiftType = H24, shiftLabel = ''24h'', hours = 24,
       assigned = Some Ashley, allowedStaff = [Ashley, Peninah, Joflix, Locum]\<rparr>]"
    using ga fa
    by (simp add: dayShifts_def Let_def getDay_addDays format_EEE_def getShiftHours_def
        getDefaultAssignment_def getAllowedStaff_def)
  have "0 < w \<longrightarrow> (\<exists>s rest. generateRosterShifts d w = s # rest
            \<and> weekday s = ''Mon'' \<and> date s = format_yyyy_MM_dd m)"
  proof
    assume "0 < w"
    then have "[0..7 * w - 1] = 0 # [1..7 * w - 1]" by (simp add: upto_rec1)
    then show "\<exists>s rest. generateRosterShifts d w = s # rest
            \<and> weekday s = ''Mon'' \<and> date s = format_yyyy_MM_dd m"
      by (simp add: generate_eq sd first)
  qed
  with eq show ?thesis by simp
qed

theorem generate_snaps_to_monday_witness:
  "getDay june3 = 1 \<and> epochDay june3 \<le> epochDay june5_noon
   \<and> epochDay june5_noon < epochDay june3 + 7 \<and> (0::int) < 1
   \<and> generateRosterShifts june5_noon 1 = generateRosterShifts june3 1
   \<and> (\<exists>s rest. generateRosterShifts june5_noon 1 = s # rest
         \<and> weekday s = ''Mon'' \<and> date s = format_yyyy_MM_dd june3)"
proof -
  have h1: "getDay june3 = 1" by (rule june3_monday)
  have h2: "epochDay june3 \<le> epochDay june5_noon" by (simp add: june3_day june5_day)
  have h3: "epochDay june5_noon < epochDay june3 + 7" by (simp add: june3_day june5_day)
  have h4: "(0::int) < 1" by simp
  from generate_snaps_to_monday[OF h1 h2 h3, of 1] h4
  have "generateRosterShifts june5_noon 1 = generateRosterShifts june3 1
     \<and> (\<exists>s rest. generateRosterShifts june5_noon 1 = s # rest
           \<and> weekday s = ''Mon'' \<and> date s = format_yyyy_MM_dd june3)"
    by blast
  with h1 h2 h3 h4 show ?thesis by blast
qed

text \<open>
  C9. For every start date and every positive number of weeks, the generated roster is not
  empty and every shift in it has a default assignee: the resolver returns a staff member for
  every (weekday, shift type) combination that the generator queries.
\<close>

theorem generated_shifts_assigned:
  assumes "0 < w"
  shows "generateRosterShifts sd w \<noteq> []
     \<and> (\<forall>s \<in> set (generateRosterShifts sd w). assigned s \<noteq> None)"
proof
  have "int (length (generateRosterShifts sd w)) = w * 9"
    using assms by (simp add: generate_length)
  with assms show "generateRosterShifts sd w \<noteq> []" by auto
  show "\<forall>s \<in> set (generateRosterShifts sd w). assigned s \<noteq> None"
    by (auto simp: generate_eq dest: dayShifts_assigned)
qed

theorem generated_shifts_assigned_witness:
  "(0::int) < 1 \<and> juneRoster ! 8 \<in> set (generateRosterShifts june3 1)
   \<and> generateRosterShifts june3 1 \<noteq> [] \<and> assigned (juneRoster ! 8) \<noteq> None"
proof -
  have h: "(0::int) < 1" by simp
  have mem: "juneRoster ! 8 \<in> set (generateRosterShifts june3 1)"
    by (simp add: june_roster juneRoster_def)
  from generated_shifts_assigned[OF h, of june3] mem
  have "generateRosterShifts june3 1 \<noteq> [] \<and> assigned (juneRoster ! 8) \<noteq> None"
    by blast
  with mem show ?thesis by simp
qed

section \<open>Hours aggregation\<close>





lemma june_hours:
  "calculateStaffHours juneRoster =
     Inr [\<lparr>name = Ashley, totalHours = 48, shiftCount = 3\<rparr>,
          \<lparr>name = Peninah, totalHours = 60, shiftCount = 3\<rparr>,
          \<lparr>name = Joflix, totalHours = 60, shiftCount = 3\<rparr>,
          \<lparr>name = Locum, totalHours = 0, shiftCount = 0\<rparr>]"
  by (simp add: calculateStaffHours_def juneRoster_def initHoursMap_def STAFF_MEMBERS_def
      addShiftHours_def)

section \<open>Roster comparison\<close>

lemma diffEntry_same:
  assumes "d \<in> set (diffEntry m m k)"
  shows "leftAssigned d = rightAssigned d \<and> \<not> isDifferent d"
  using assms by (auto simp: diffEntry_def Let_def split: option.splits)

lemma set_insertSorted: "set (insertSorted cmp x ys) = insert x (set ys)"
  by (induction ys) auto

lemma set_sortBy: "set (sortBy cmp xs) = set xs"
  unfolding sortBy_def by (induction xs) (simp_all add: set_insertSorted)

lemma diffs_same:
  assumes "d \<in> set (diffs lc (Some r) (Some r))"
  shows "leftAssigned d = rightAssigned d \<and> \<not> isDifferent d"
  using assms by (auto simp: diffs_def Let_def set_sortBy dest: diffEntry_same)

text \<open>
  C7. Comparing a roster with itself gives no entry whose changed flag is true: the count of
  changed entries is 0, and every entry has the same assignee on both sides.
\<close>

theorem diffs_self_unchanged:
  "changedCount (diffs lc (Some r) (Some r)) = 0
   \<and> (\<forall>d \<in> set (diffs lc (Some r) (Some r)).
         leftAssigned d = rightAssigned d \<and> \<not> isDifferent d)"
proof -
  have all: "\<forall>d \<in> set (diffs lc (Some r) (Some r)).
         leftAssigned d = rightAssigned d \<and> \<not> isDifferent d"
    using diffs_same by blast
  then have "filter isDifferent (diffs lc (Some r) (Some r)) = []"
    by (simp add: filter_empty_conv)
  with all show ?thesis by (simp add: changedCount_def)
qed

lemma june_diff_ids:
  "map diff_shiftId (diffs codeCompare (Some juneRosterRec) (Some juneRosterRec)) =
     [''2024-06-03-24h'', ''2024-06-04-24h'', ''2024-06-05-24h'', ''2024-06-06-24h'',
      ''2024-06-07-24h'', ''2024-06-08-day'', ''2024-06-08-night'', ''2024-06-09-day'',
      ''2024-06-09-night'']"
  unfolding juneRosterRec_def juneRoster_def by code_simp

theorem diffs_self_unchanged_witness:
  "diffs codeCompare (Some juneRosterRec) (Some juneRosterRec) ! 5
     \<in> set (diffs codeCompare (Some juneRosterRec) (Some juneRosterRec))
   \<and> diff_shiftId (diffs codeCompare (Some juneRosterRec) (Some juneRosterRec) ! 5)
       = ''2024-06-08-day''
   \<and> changedCount (diffs codeCompare (Some juneRosterRec) (Some juneRosterRec)) = 0
   \<and> leftAssigned (diffs codeCompare (Some juneRosterRec) (Some juneRosterRec) ! 5)
       = rightAssigned (diffs codeCompare (Some juneRosterRec) (Some juneRosterRec) ! 5)
   \<and> \<not> isDifferent (diffs codeCompare (Some juneRosterRec) (Some juneRosterRec) ! 5)"
proof -
  let ?ds = "diffs codeCompare (Some juneRosterRec) (Some juneRosterRec)"
  have len: "length ?ds = 9"
    using arg_cong[OF june_diff_ids, of length] by simp
  then have mem: "?ds ! 5 \<in> set ?ds" by simp
  have "diff_shiftId (?ds ! 5) = map diff_shiftId ?ds ! 5"
    using len by simp
  then have ident: "diff_shiftId (?ds ! 5) = ''2024-06-08-day''"
    by (simp only: june_diff_ids) simp
  from diffs_self_unchanged[of codeCompare juneRosterRec] mem
  have "changedCount ?ds = 0 \<and> leftAssigned (?ds ! 5) = rightAssigned (?ds ! 5)
        \<and> \<not> isDifferent (?ds ! 5)"
    by blast
  with mem ident show ?thesis by blast
qed

section \<open>Shift updates in the storages\<close>

lemma findIndex_find:
  "find P xs = Some s \<Longrightarrow> \<exists>i. findIndex P xs = Some i \<and> i < length xs \<and> xs ! i = s"
  by (induction xs) (auto split: if_splits)

lemma find_list_update:
  "findIndex P xs = Some i \<Longrightarrow> P y \<Longrightarrow> find P (xs[i := y]) = Some y"
proof (induction xs arbitrary: i)
  case Nil
  then show ?case by simp
next
  case (Cons x xs)
  then show ?case by (cases i) (auto split: if_splits option.splits)
qed

lemma find_set_assigned:
  "find (\<lambda>s. shift_id s = k)
        (map (\<lambda>s. if shift_id s = k then s\<lparr>assigned := a\<rparr> else s) xs)
   = map_option (\<lambda>s. s\<lparr>assigned := a\<rparr>) (find (\<lambda>s. shift_id s = k) xs)"
  by (induction xs) auto

lemma selectShift_setShiftAssigned:
  "selectShift (setShiftAssigned db k a) k = map_option (\<lambda>s. s\<lparr>assigned := a\<rparr>) (selectShift db k)"
  by (simp add: selectShift_def setShiftAssigned_def find_set_assigned)

lemma selectShift_touchRoster: "selectShift (touchRoster db rid now) k = selectShift db k"
  by (simp add: selectShift_def touchRoster_def)

lemma dbShiftToRosterShift_assigned:
  "dbShiftToRosterShift (t\<lparr>assigned := a\<rparr>) = (dbShiftToRosterShift t)\<lparr>assigned := a\<rparr>"
  by (simp add: dbShiftToRosterShift_def)

lemma mem_update_accept:
  assumes "memShift st k = Some s" "a = None \<or> the a \<in> set (allowedStaff s)"
  shows "fst (MemStorage_updateShift st k a) = Inr (Some (s\<lparr>assigned := a\<rparr>))
       \<and> memShift (snd (MemStorage_updateShift st k a)) k = Some (s\<lparr>assigned := a\<rparr>)"
proof -
  from assms(1) obtain r where r: "roster st = Some r"
    and f: "find (\<lambda>s. shift_id s = k) (shifts r) = Some s"
    by (auto simp: memShift_def split: option.splits)
  from findIndex_find[OF f] obtain i where
    i: "findIndex (\<lambda>s. shift_id s = k) (shifts r) = Some i" "shifts r ! i = s"
    by blast
  from f have sk: "shift_id s = k" by (auto simp: find_Some_iff)
  have "find (\<lambda>s. shift_id s = k) ((shifts r)[i := s\<lparr>assigned := a\<rparr>]) = Some (s\<lparr>assigned := a\<rparr>)"
    using find_list_update[OF i(1), of "s\<lparr>assigned := a\<rparr>"] sk by simp
  with r i assms(2) show ?thesis
    by (auto simp: MemStorage_updateShift_def memShift_def Let_def)
qed

lemma mem_update_reject:
  assumes "memShift st k = Some s" "p \<notin> set (allowedStaff s)"
  shows "MemStorage_updateShift st k (Some p) = (Inl (NotAllowed p), st)"
proof -
  from assms(1) obtain r where r: "roster st = Some r"
    and f: "find (\<lambda>s. shift_id s = k) (shifts r) = Some s"
    by (auto simp: memShift_def split: option.splits)
  from findIndex_find[OF f] obtain i where
    i: "findIndex (\<lambda>s. shift_id s = k) (shifts r) = Some i" "shifts r ! i = s"
    by blast
  with r assms(2) show ?thesis
    by (simp add: MemStorage_updateShift_def Let_def)
qed

lemma db_update_accept:
  assumes "selectShift db k = Some t" "a = None \<or> the a \<in> set (allowedStaff t)"
  shows "fst (DatabaseStorage_updateShift db now k a)
           = Inr (Some ((dbShiftToRosterShift t)\<lparr>assigned := a\<rparr>))
       \<and> selectShift (snd (DatabaseStorage_updateShift db now k a)) k = Some (t\<lparr>assigned := a\<rparr>)"
  using assms
  by (auto simp: DatabaseStorage_updateShift_def Let_def selectShift_touchRoster
      selectShift_setShiftAssigned dbShiftToRosterShift_assigned)

lemma db_update_reject:
  assumes "selectShift db k = Some t" "p \<notin> set (allowedStaff t)"
  shows "DatabaseStorage_updateShift db now k (Some p) = (Inl (NotAllowed p), db)"
  using assms by (simp add: DatabaseStorage_updateShift_def)

lemma mem_update_none_no_error: "fst (MemStorage_updateShift st k None) \<noteq> Inl e"
  by (simp add: MemStorage_updateShift_def Let_def split: option.splits)

lemma db_update_none_no_error: "fst (DatabaseStorage_updateShift db now k None) \<noteq> Inl e"
  by (auto simp: DatabaseStorage_updateShift_def Let_def selectShift_touchRoster
      selectShift_setShiftAssigned split: option.splits)

lemma memJune_satDay: "memShift memJune ''2024-06-08-day'' = Some satDay"
  by (simp add: memShift_def memJune_def juneRosterRec_def juneRoster_def satDay_def)

lemma memJune_satNight: "memShift memJune ''2024-06-08-night'' = Some satNight"
  by (simp add: memShift_def memJune_def juneRosterRec_def juneRoster_def satNight_def)

lemma dbJune_satDay: "selectShift dbJune ''2024-06-08-day'' = Some (toDbShift ''r1'' satDay)"
  by (simp add: selectShift_def dbJune_def juneRoster_def satDay_def toDbShift_def)

lemma dbJune_satNight: "selectShift dbJune ''2024-06-08-night'' = Some (toDbShift ''r1'' satNight)"
  by (simp add: selectShift_def dbJune_def juneRoster_def satNight_def toDbShift_def)

text \<open>
  C4. For a stored shift and a proposed assignee that is not null, updateShift throws the
  "not allowed" error exactly when the proposed assignee is not in the shift's allowedStaff
  list, and then the storage is unchanged; when the proposed assignee is in the list, the
  update returns the shift with the new assignee and the stored shift has the new assignee,
  its other fields unchanged. This holds for MemStorage and for DatabaseStorage.
\<close>

theorem updateShift_validates:
  "(memShift st k = Some s \<longrightarrow>
      ((fst (MemStorage_updateShift st k (Some p)) = Inl (NotAllowed p))
          = (p \<notin> set (allowedStaff s)))
      \<and> (p \<notin> set (allowedStaff s) \<longrightarrow> snd (MemStorage_updateShift st k (Some p)) = st)
      \<and> (p \<in> set (allowedStaff s) \<longrightarrow>
            fst (MemStorage_updateShift st k (Some p)) = Inr (Some (s\<lparr>assigned := Some p\<rparr>))
            \<and> memShift (snd (MemStorage_updateShift st k (Some p))) k
                = Some (s\<lparr>assigned := Some p\<rparr>)))
   \<and> (selectShift db k = Some t \<longrightarrow>
      ((fst (DatabaseStorage_updateShift db now k (Some p)) = Inl (NotAllowed p))
          = (p \<notin> set (allowedStaff t)))
      \<and> (p \<notin> set (allowedStaff t) \<longrightarrow> snd (DatabaseStorage_updateShift db now k (Some p)) = db)
      \<and> (p \<in> set (allowedStaff t) \<longrightarrow>
            fst (DatabaseStorage_updateShift db now k (Some p))
              = Inr (Some ((dbShiftToRosterShift t)\<lparr>assigned := Some p\<rparr>))
            \<and> selectShift (snd (DatabaseStorage_updateShift db now k (Some p))) k
                = Some (t\<lparr>assigned := Some p\<rparr>)))"
proof (intro conjI impI)
  assume m: "memShift st k = Some s"
  show "(fst (MemStorage_updateShift st k (Some p)) = Inl (NotAllowed p))
          = (p \<notin> set (allowedStaff s))"
    using mem_update_reject[OF m, of p] mem_update_accept[OF m, of "Some p"] by auto
  show "snd (MemStorage_updateShift st k (Some p)) = st" if "p \<notin> set (allowedStaff s)"
    using mem_update_reject[OF m that] by simp
  show "fst (MemStorage_updateShift st k (Some p)) = Inr (Some (s\<lparr>assigned := Some p\<rparr>))"
    if "p \<in> set (allowedStaff s)"
    using mem_update_accept[OF m, of "Some p"] that by simp
  show "memShift (snd (MemStorage_updateShift st k (Some p))) k = Some (s\<lparr>assigned := Some p\<rparr>)"
    if "p \<in> set (allowedStaff s)"
    using mem_update_accept[OF m, of "Some p"] that by simp
next
  assume m: "selectShift db k = Some t"
  show "(fst (DatabaseStorage_updateShift db now k (Some p)) = Inl (NotAllowed p))
          = (p \<notin> set (allowedStaff t))"
    using db_update_reject[OF m, of p now] db_update_accept[OF m, of "Some p" now] by auto
  show "snd (DatabaseStorage_updateShift db now k (Some p)) = db" if "p \<notin> set (allowedStaff t)"
    using db_update_reject[OF m that] by simp
  show "fst (DatabaseStorage_updateShift db now k (Some p))
          = Inr (Some ((dbShiftToRosterShift t)\<lparr>assigned := Some p\<rparr>))"
    if "p \<in> set (allowedStaff t)"
    using db_update_accept[OF m, of "Some p" now] that by simp
  show "selectShift (snd (DatabaseStorage_updateShift db now k (Some p))) k
          = Some (t\<lparr>assigned := Some p\<rparr>)"
    if "p \<in> set (allowedStaff t)"
    using db_update_accept[OF m, of "Some p" now] that by simp
qed

theorem updateShift_validates_witness:
  "memShift memJune ''2024-06-08-day'' = Some satDay
   \<and> selectShift dbJune ''2024-06-08-day'' = Some (toDbShift ''r1'' satDay)
   \<and> Ashley \<notin> set (allowedStaff satDay)
   \<and> MemStorage_updateShift memJune ''2024-06-08-day'' (Some Ashley)
       = (Inl (NotAllowed Ashley), memJune)
   \<and> DatabaseStorage_updateShift dbJune 7 ''2024-06-08-day'' (Some Ashley)
       = (Inl (NotAllowed Ashley), dbJune)
   \<and> memShift memJune ''2024-06-08-night'' = Some satNight
   \<and> selectShift dbJune ''2024-06-08-night'' = Some (toDbShift ''r1'' satNight)
   \<and> Peninah \<in> set (allowedStaff satNight)
   \<and> fst (MemStorage_updateShift memJune ''2024-06-08-night'' (Some Peninah))
       = Inr (Some (satNight\<lparr>assigned := Some Peninah\<rparr>))
   \<and> memShift (snd (MemStorage_updateShift memJune ''2024-06-08-night'' (Some Peninah)))
         ''2024-06-08-night'' = Some (satNight\<lparr>assigned := Some Peninah\<rparr>)
   \<and> fst (DatabaseStorage_updateShift dbJune 7 ''2024-06-08-night'' (Some Peninah))
       = Inr (Some (satNight\<lparr>assigned := Some Peninah\<rparr>))
   \<and> selectShift (snd (DatabaseStorage_updateShift dbJune 7 ''2024-06-08-night'' (Some Peninah)))
         ''2024-06-08-night'' = Some (toDbShift ''r1'' (satNight\<lparr>assigned := Some Peninah\<rparr>))"
proof -
  have no: "Ashley \<notin> set (allowedStaff satDay)"
    "Ashley \<notin> set (allowedStaff (toDbShift ''r1'' satDay))"
    by (simp_all add: satDay_def toDbShift_def)
  have yes: "Peninah \<in> set (allowedStaff satNight)"
    "Peninah \<in> set (allowedStaff (toDbShift ''r1'' satNight))"
    by (simp_all add: satNight_def toDbShift_def)
  have conv: "dbShiftToRosterShift (toDbShift ''r1'' satNight) = satNight"
    "(toDbShift ''r1'' satNight)\<lparr>assigned := Some Peninah\<rparr>
       = toDbShift ''r1'' (satNight\<lparr>assigned := Some Peninah\<rparr>)"
    by (simp_all add: dbShiftToRosterShift_def toDbShift_def)
  note rej = updateShift_validates[of memJune "''2024-06-08-day''" satDay Ashley
      dbJune "toDbShift ''r1'' satDay" 7]
  note acc = updateShift_validates[of memJune "''2024-06-08-night''" satNight Peninah
      dbJune "toDbShift ''r1'' satNight" 7]
  from rej memJune_satDay dbJune_satDay no
  have r: "MemStorage_updateShift memJune ''2024-06-08-day'' (Some Ashley)
       = (Inl (NotAllowed Ashley), memJune)"
    "DatabaseStorage_updateShift dbJune 7 ''2024-06-08-day'' (Some Ashley)
       = (Inl (NotAllowed Ashley), dbJune)"
    by (simp_all add: prod_eq_iff)
  from acc memJune_satNight dbJune_satNight yes
  have a: "fst (MemStorage_updateShift memJune ''2024-06-08-night'' (Some Peninah))
       = Inr (Some (satNight\<lparr>assigned := Some Peninah\<rparr>))"
    "memShift (snd (MemStorage_updateShift memJune ''2024-06-08-night'' (Some Peninah)))
         ''2024-06-08-night'' = Some (satNight\<lparr>assigned := Some Peninah\<rparr>)"
    "fst (DatabaseStorage_updateShift dbJune 7 ''2024-06-08-night'' (Some Peninah))
       = Inr (Some (satNight\<lparr>assigned := Some Peninah\<rparr>))"
    "selectShift (snd (DatabaseStorage_updateShift dbJune 7 ''2024-06-08-night'' (Some Peninah)))
         ''2024-06-08-night'' = Some (toDbShift ''r1'' (satNight\<lparr>assigned := Some Peninah\<rparr>))"
    by (simp_all add: conv)
  from memJune_satDay dbJune_satDay memJune_satNight dbJune_satNight no(1) yes(1) r a
  show ?thesis by blast
qed

text \<open>
  C10. updateShift with a null assignee never throws: for a stored shift it returns the shift
  with assignee null and stores it, whatever the allowedStaff list is, also when the list has
  exactly one member. The membership check applies to non-null assignees only. This holds for
  MemStorage and for DatabaseStorage.
\<close>

theorem updateShift_unassign:
  "(\<forall>e. fst (MemStorage_updateShift st k None) \<noteq> Inl e)
   \<and> (memShift st k = Some s \<longrightarrow>
        fst (MemStorage_updateShift st k None) = Inr (Some (s\<lparr>assigned := None\<rparr>))
        \<and> memShift (snd (MemStorage_updateShift st k None)) k = Some (s\<lparr>assigned := None\<rparr>))
   \<and> (\<forall>e. fst (DatabaseStorage_updateShift db now k None) \<noteq> Inl e)
   \<and> (selectShift db k = Some t \<longrightarrow>
        fst (DatabaseStorage_updateShift db now k None)
          = Inr (Some ((dbShiftToRosterShift t)\<lparr>assigned := None\<rparr>))
        \<and> selectShift (snd (DatabaseStorage_updateShift db now k None)) k
            = Some (t\<lparr>assigned := None\<rparr>))"
  using mem_update_none_no_error[of st k] mem_update_accept[of st k s None]
    db_update_none_no_error[of db now k] db_update_accept[of db k t None now]
  by simp

theorem updateShift_unassign_witness:
  "memShift memJune ''2024-06-08-day'' = Some satDay
   \<and> selectShift dbJune ''2024-06-08-day'' = Some (toDbShift ''r1'' satDay)
   \<and> allowedStaff satDay = [Joflix]
   \<and> fst (MemStorage_updateShift memJune ''2024-06-08-day'' None)
       = Inr (Some (satDay\<lparr>assigned := None\<rparr>))
   \<and> memShift (snd (MemStorage_updateShift memJune ''2024-06-08-day'' None)) ''2024-06-08-day''
       = Some (satDay\<lparr>assigned := None\<rparr>)
   \<and> fst (DatabaseStorage_updateShift dbJune 7 ''2024-06-08-day'' None)
       = Inr (Some (satDay\<lparr>assigned := None\<rparr>))
   \<and> selectShift (snd (DatabaseStorage_updateShift dbJune 7 ''2024-06-08-day'' None))
         ''2024-06-08-day'' = Some (toDbShift ''r1'' (satDay\<lparr>assigned := None\<rparr>))"
proof -
  have locked: "allowedStaff satDay = [Joflix]" by (simp add: satDay_def)
  have conv: "dbShiftToRosterShift (toDbShift ''r1'' satDay) = satDay"
    "(toDbShift ''r1'' satDay)\<lparr>assigned := None\<rparr> = toDbShift ''r1'' (satDay\<lparr>assigned := None\<rparr>)"
    by (simp_all add: dbShiftToRosterShift_def toDbShift_def)
  from updateShift_unassign[of memJune "''2024-06-08-day''" satDay dbJune 7
      "toDbShift ''r1'' satDay"] memJune_satDay dbJune_satDay
  have u: "fst (MemStorage_updateShift memJune ''2024-06-08-day'' None)
       = Inr (Some (satDay\<lparr>assigned := None\<rparr>))"
    "memShift (snd (MemStorage_updateShift memJune ''2024-06-08-day'' None)) ''2024-06-08-day''
       = Some (satDay\<lparr>assigned := None\<rparr>)"
    "fst (DatabaseStorage_updateShift dbJune 7 ''2024-06-08-day'' None)
       = Inr (Some (satDay\<lparr>assigned := None\<rparr>))"
    "selectShift (snd (DatabaseStorage_updateShift dbJune 7 ''2024-06-08-day'' None))
         ''2024-06-08-day'' = Some (toDbShift ''r1'' (satDay\<lparr>assigned := None\<rparr>))"
    by (simp_all add: conv)
  from memJune_satDay dbJune_satDay locked u show ?thesis by blast
qed

lemma dbSwapPending_eq:
  "dbSwapPending = dbJune\<lparr>swapRequestsTable :=
      [\<lparr>sw_id = ''q1'', sw_shiftId = ''2024-06-08-day'', sw_fromStaff = Joflix,
        sw_toStaff = Ashley, sw_status = Pending, sw_reason = None,
        sw_createdAt = 100, sw_respondedAt = None\<rparr>]\<rparr>"
  by (simp add: dbSwapPending_def createSwapRequest_def dbJune_satDay Let_def)
     (simp add: dbJune_def)

text \<open>
  C1. Approving a swap request writes the shift's assignee without the eligibility check of
  updateShift. In the saved one-week roster every assignee is eligible, and updateShift refuses
  Ashley for the Saturday Day shift; approving a swap request towards Ashley for that shift
  succeeds and leaves the shift assigned to Ashley, who is not in its allowedStaff list.
\<close>

theorem swap_approval_skips_validation:
  "list_all assigneeEligible (shiftsTable dbJune)
   \<and> fst (DatabaseStorage_updateShift dbJune 200 ''2024-06-08-day'' (Some Ashley))
       = Inl (NotAllowed Ashley)
   \<and> (case fst (respondToSwapRequest dbSwapPending 200 ''q1'' Approved) of
         Inr (Some det) \<Rightarrow> det_status det = Approved \<and> det_toStaff det = Ashley
       | _ \<Rightarrow> False)
   \<and> selectShift dbSwapApproved ''2024-06-08-day''
       = Some (toDbShift ''r1'' (satDay\<lparr>assigned := Some Ashley\<rparr>))
   \<and> allowedStaff (toDbShift ''r1'' (satDay\<lparr>assigned := Some Ashley\<rparr>)) = [Joflix]
   \<and> \<not> assigneeEligible (toDbShift ''r1'' (satDay\<lparr>assigned := Some Ashley\<rparr>))
   \<and> \<not> list_all assigneeEligible (shiftsTable dbSwapApproved)"
proof -
  have inv: "list_all assigneeEligible (shiftsTable dbJune)"
    by (simp add: dbJune_def juneRoster_def toDbShift_def assigneeEligible_def)
  have upd: "fst (DatabaseStorage_updateShift dbJune 200 ''2024-06-08-day'' (Some Ashley))
       = Inl (NotAllowed Ashley)"
    by (simp add: DatabaseStorage_updateShift_def dbJune_satDay toDbShift_def satDay_def)
  have resp: "(case fst (respondToSwapRequest dbSwapPending 200 ''q1'' Approved) of
         Inr (Some det) \<Rightarrow> det_status det = Approved \<and> det_toStaff det = Ashley
       | _ \<Rightarrow> False)"
    by (simp add: respondToSwapRequest_def dbSwapPending_eq Let_def)
  have sel: "selectShift dbSwapApproved ''2024-06-08-day''
       = Some (toDbShift ''r1'' (satDay\<lparr>assigned := Some Ashley\<rparr>))"
    by (simp add: dbSwapApproved_def respondToSwapRequest_def dbSwapPending_eq Let_def
        selectShift_def setShiftAssigned_def find_set_assigned)
       (simp add: dbJune_def juneRoster_def toDbShift_def satDay_def)
  have al: "allowedStaff (toDbShift ''r1'' (satDay\<lparr>assigned := Some Ashley\<rparr>)) = [Joflix]"
    by (simp add: toDbShift_def satDay_def)
  have bad: "\<not> assigneeEligible (toDbShift ''r1'' (satDay\<lparr>assigned := Some Ashley\<rparr>))"
    by (simp add: assigneeEligible_def toDbShift_def satDay_def)
  have "toDbShift ''r1'' (satDay\<lparr>assigned := Some Ashley\<rparr>) \<in> set (shiftsTable dbSwapApproved)"
    using sel by (auto simp: selectShift_def find_Some_iff)
  with bad have broken: "\<not> list_all assigneeEligible (shiftsTable dbSwapApproved)"
    by (auto simp: list_all_iff)
  from inv upd resp sel al bad broken show ?thesis by blast
qed

end
